theory Spec2Isabelle
  imports Main "HOL-Library.Word"
begin

section \<open>The node wrapper of the wallet (src/CryptoNoteWrapper.cpp)\<close>

text \<open>
  The wrapper gives the wallet one \<open>Node\<close> interface with two implementations:
  \<open>RpcNode\<close>, which proxies a remote daemon, and \<open>InprocessNode\<close>, which embeds a
  core, a P2P server and a database. The functions below follow the C++ text of
  \<open>CryptoNoteWrapper.cpp\<close>. An exception is a value, a call that writes through a
  reference returns what it wrote, and a call into the CryptoNote library (whose sources
  are not part of the wrapper) is a function the model receives as an argument. Where a
  property is about which calls are made, the model returns the calls in the order the
  C++ text makes them.
\<close>

subsection \<open>Machine types\<close>

type_synonym byte = "8 word"
type_synonym uint32_t = "32 word"
type_synonym uint64_t = "64 word"

text \<open>\<open>size_t\<close> on the 64-bit targets the wallet is built for.\<close>

type_synonym size_t = "64 word"

text \<open>\<open>CryptoNote::BinaryArray\<close> is \<open>std::vector<uint8_t>\<close>. \<open>Crypto::Hash\<close>,
  \<open>Crypto::PublicKey\<close> and \<open>Crypto::SecretKey\<close> are plain structs of 32 bytes; the
  model keeps their bytes.\<close>

type_synonym BinaryArray = "byte list"
type_synonym Hash = "byte list"
type_synonym PublicKey = "byte list"
type_synonym SecretKey = "byte list"

text \<open>A \<open>std::string\<close> is a list of 8-bit characters. \<open>std::string(extra.begin(),
  extra.end())\<close> converts every \<open>uint8_t\<close> to a \<open>char\<close>, and \<open>push_back(el)\<close> on a
  \<open>std::vector<uint8_t>\<close> converts every \<open>char\<close> back.\<close>

definition char_of_byte :: "byte \<Rightarrow> char" where
  "char_of_byte b = char_of (unat b)"

definition byte_of_char :: "char \<Rightarrow> byte" where
  "byte_of_char c = of_nat (of_char c)"

subsection \<open>Exceptions\<close>

text \<open>
  The exception classes the wrapper's handlers name: \<open>CryptoNote::ConnectException\<close>
  (derived from \<open>std::runtime_error\<close>), \<open>std::runtime_error\<close> itself, and any other
  class derived from \<open>std::exception\<close>. Each carries its \<open>what()\<close> text.
\<close>

datatype exception =
    ConnectException string
  | runtime_error string
  | std_exception string

fun what :: "exception \<Rightarrow> string" where
  "what (ConnectException w) = w"
| "what (runtime_error w) = w"
| "what (std_exception w) = w"

text \<open>What \<open>catch (std::runtime_error&)\<close> catches.\<close>

fun is_runtime_error :: "exception \<Rightarrow> bool" where
  "is_runtime_error (ConnectException w) = True"
| "is_runtime_error (runtime_error w) = True"
| "is_runtime_error (std_exception w) = False"

subsection \<open>Hexadecimal text\<close>

text \<open>
  Modelled from the spec: \<open>Common::podToHex\<close>, \<open>Common::toHex\<close> and \<open>Common::fromHex\<close>
  (\<open>Common/StringTools.h\<close>) are not among the wrapper's sources. The spec speaks of the
  hex-encoded identifier and of a 64-character hex string that decodes to 32 bytes: two
  hex digits per byte, the high half first. The encoder writes the digits \<open>a\<close> to \<open>f\<close>
  in lower case; the decoder reads them in either case.
\<close>

definition hexDigit :: "nat \<Rightarrow> char" where
  "hexDigit n = ''0123456789abcdef'' ! n"

fun toHex :: "BinaryArray \<Rightarrow> string" where
  "toHex [] = []"
| "toHex (b # bs) = hexDigit (unat b div 16) # hexDigit (unat b mod 16) # toHex bs"

definition podToHex :: "byte list \<Rightarrow> string" where
  "podToHex h = toHex h"

text \<open>The place of a character in a string of digits.\<close>

fun position :: "'a \<Rightarrow> 'a list \<Rightarrow> nat option" where
  "position x [] = None"
| "position x (y # ys) = (if x = y then Some 0 else map_option Suc (position x ys))"

definition fromHexChar :: "char \<Rightarrow> nat option" where
  "fromHexChar c =
     (case position c ''0123456789abcdef'' of
        Some n \<Rightarrow> Some n
      | None \<Rightarrow> map_option (\<lambda>k. 10 + k) (position c ''ABCDEF''))"

fun fromHex :: "string \<Rightarrow> BinaryArray option" where
  "fromHex [] = Some []"
| "fromHex [c] = None"
| "fromHex (c # d # cs) =
     (case fromHexChar c of
        None \<Rightarrow> None
      | Some hi \<Rightarrow>
          (case fromHexChar d of
             None \<Rightarrow> None
           | Some lo \<Rightarrow> map_option ((#) (of_nat (16 * hi + lo))) (fromHex cs)))"

text \<open>\<open>Common::fromHex(const std::string&)\<close> returns the bytes or throws
  \<open>std::runtime_error\<close>.\<close>

definition Common_fromHex :: "string \<Rightarrow> exception + BinaryArray" where
  "Common_fromHex hex =
     (case fromHex hex of
        None \<Rightarrow> Inl (runtime_error ''fromHex: invalid string'')
      | Some bytes \<Rightarrow> Inr bytes)"

text \<open>The characters a hex string may hold, the lower-case ones among them, and the
  lower-case form of a hex digit.\<close>

definition hexChars :: "char list" where
  "hexChars = ''0123456789abcdefABCDEF''"

definition lowerHexChars :: "char list" where
  "lowerHexChars = ''0123456789abcdef''"

definition lowerHex :: "char \<Rightarrow> char" where
  "lowerHex c =
     (if c = CHR ''A'' then CHR ''a'' else if c = CHR ''B'' then CHR ''b''
      else if c = CHR ''C'' then CHR ''c'' else if c = CHR ''D'' then CHR ''d''
      else if c = CHR ''E'' then CHR ''e'' else if c = CHR ''F'' then CHR ''f''
      else c)"

text \<open>The spec's valid payment identifier: 64 characters, each a hex digit.\<close>

definition valid_payment_id :: "string \<Rightarrow> bool" where
  "valid_payment_id s = (length s = 64 \<and> list_all (\<lambda>c. c \<in> set hexChars) s)"

text \<open>Modelled from the spec: \<open>CryptoNote::NULL_HASH\<close> is declared in the CryptoNote
  library; the spec calls it the all-zero sentinel.\<close>

definition NULL_HASH :: Hash where
  "NULL_HASH = replicate 32 0"

subsection \<open>The CryptoNote library behind the payment-identifier codec\<close>

text \<open>
  The four library functions \<open>convertPaymentId\<close> and \<open>extractPaymentId\<close> call. A
  function that returns \<open>bool\<close> and writes its result through a reference returns
  \<open>Some\<close> of what it wrote, or \<open>None\<close> for \<open>false\<close>.
\<close>

record CryptoNote =
  CryptoNote_parsePaymentId :: "string \<Rightarrow> Hash option"
  CryptoNote_setPaymentIdToTransactionExtraNonce :: "Hash \<Rightarrow> BinaryArray"
  CryptoNote_addExtraNonceToTransactionExtra :: "byte list \<Rightarrow> BinaryArray \<Rightarrow> byte list option"
  CryptoNote_getPaymentIdFromTxExtra :: "byte list \<Rightarrow> Hash option"

text \<open>
  Modelled from the spec: the bodies of \<open>CryptoNote::parsePaymentId\<close>,
  \<open>setPaymentIdToTransactionExtraNonce\<close>, \<open>addExtraNonceToTransactionExtra\<close> and
  \<open>getPaymentIdFromTxExtra\<close> (\<open>CryptoNoteCore/TransactionExtra\<close>) are not among the
  wrapper's sources. The spec says that a non-empty identifier is a fixed-length hex
  string decodable to 32 bytes, that conversion wraps the identifier into the
  transaction-extra binary encoding, and that extraction parses the transaction-extra
  structure for an embedded identifier. The byte layout below is the CryptoNote one:
  the extra field is a sequence of tagged fields; a nonce field is the tag \<open>0x02\<close>, one
  length byte and the payload; a payment identifier is a nonce payload made of the tag
  \<open>0x00\<close> and the 32 bytes.
\<close>

definition TX_EXTRA_TAG_PADDING :: byte where
  "TX_EXTRA_TAG_PADDING = 0"

definition TX_EXTRA_TAG_PUBKEY :: byte where
  "TX_EXTRA_TAG_PUBKEY = 1"

definition TX_EXTRA_NONCE :: byte where
  "TX_EXTRA_NONCE = 2"

definition TX_EXTRA_NONCE_PAYMENT_ID :: byte where
  "TX_EXTRA_NONCE_PAYMENT_ID = 0"

definition TX_EXTRA_NONCE_MAX_COUNT :: nat where
  "TX_EXTRA_NONCE_MAX_COUNT = 255"

definition TX_EXTRA_PADDING_MAX_COUNT :: nat where
  "TX_EXTRA_PADDING_MAX_COUNT = 255"

definition parsePaymentId_spec :: "string \<Rightarrow> Hash option" where
  "parsePaymentId_spec s =
     (case fromHex s of
        None \<Rightarrow> None
      | Some h \<Rightarrow> if length h = 32 then Some h else None)"

definition setPaymentIdToTransactionExtraNonce_spec :: "Hash \<Rightarrow> BinaryArray" where
  "setPaymentIdToTransactionExtraNonce_spec payment_id = TX_EXTRA_NONCE_PAYMENT_ID # payment_id"

definition addExtraNonceToTransactionExtra_spec ::
  "byte list \<Rightarrow> BinaryArray \<Rightarrow> byte list option" where
  "addExtraNonceToTransactionExtra_spec tx_extra extra_nonce =
     (if length extra_nonce > TX_EXTRA_NONCE_MAX_COUNT then None
      else Some (tx_extra @ [TX_EXTRA_NONCE, of_nat (length extra_nonce)] @ extra_nonce))"

datatype TransactionExtraField =
    TransactionExtraPadding nat
  | TransactionExtraPublicKey "byte list"
  | TransactionExtraNonce BinaryArray

fun parseTransactionExtra_spec :: "byte list \<Rightarrow> TransactionExtraField list option" where
  "parseTransactionExtra_spec [] = Some []"
| "parseTransactionExtra_spec (t # rest) =
     (if t = TX_EXTRA_TAG_PADDING then
        (if length rest < TX_EXTRA_PADDING_MAX_COUNT \<and> list_all (\<lambda>b. b = 0) rest
         then Some [TransactionExtraPadding (Suc (length rest))] else None)
      else if t = TX_EXTRA_TAG_PUBKEY then
        (if length rest < 32 then None
         else map_option ((#) (TransactionExtraPublicKey (take 32 rest)))
                (parseTransactionExtra_spec (drop 32 rest)))
      else if t = TX_EXTRA_NONCE then
        (case rest of
           [] \<Rightarrow> None
         | n # payload \<Rightarrow>
             if length payload < unat n then None
             else map_option ((#) (TransactionExtraNonce (take (unat n) payload)))
                    (parseTransactionExtra_spec (drop (unat n) payload)))
      else parseTransactionExtra_spec rest)"

fun findTransactionExtraNonce :: "TransactionExtraField list \<Rightarrow> BinaryArray option" where
  "findTransactionExtraNonce [] = None"
| "findTransactionExtraNonce (TransactionExtraNonce nonce # tx_extra_fields) = Some nonce"
| "findTransactionExtraNonce (_ # tx_extra_fields) = findTransactionExtraNonce tx_extra_fields"

definition getPaymentIdFromTransactionExtraNonce :: "BinaryArray \<Rightarrow> Hash option" where
  "getPaymentIdFromTransactionExtraNonce extra_nonce =
     (case extra_nonce of
        [] \<Rightarrow> None
      | t # payment_id \<Rightarrow>
          if length payment_id = 32 \<and> t = TX_EXTRA_NONCE_PAYMENT_ID then Some payment_id
          else None)"

definition getPaymentIdFromTxExtra_spec :: "byte list \<Rightarrow> Hash option" where
  "getPaymentIdFromTxExtra_spec extra =
     (case parseTransactionExtra_spec extra of
        None \<Rightarrow> None
      | Some tx_extra_fields \<Rightarrow>
          (case findTransactionExtraNonce tx_extra_fields of
             None \<Rightarrow> None
           | Some extra_nonce \<Rightarrow> getPaymentIdFromTransactionExtraNonce extra_nonce))"

definition CryptoNote_spec :: CryptoNote where
  "CryptoNote_spec =
     \<lparr>CryptoNote_parsePaymentId = parsePaymentId_spec,
      CryptoNote_setPaymentIdToTransactionExtraNonce = setPaymentIdToTransactionExtraNonce_spec,
      CryptoNote_addExtraNonceToTransactionExtra = addExtraNonceToTransactionExtra_spec,
      CryptoNote_getPaymentIdFromTxExtra = getPaymentIdFromTxExtra_spec\<rparr>"

subsection \<open>The payment-identifier codec (lines 54-90)\<close>

text \<open>The library calls \<open>convertPaymentId\<close> makes, with their arguments.\<close>

datatype library_call =
    Call_parsePaymentId string
  | Call_setPaymentIdToTransactionExtraNonce Hash
  | Call_addExtraNonceToTransactionExtra "byte list" BinaryArray

definition parsePaymentId :: "CryptoNote \<Rightarrow> string \<Rightarrow> Hash option" where
  "parsePaymentId L payment_id_str = CryptoNote_parsePaymentId L payment_id_str"

text \<open>\<open>convertPaymentId\<close> returns the string or the exception it throws, and the library
  calls it made on the way. The double quote of the two messages is \<open>CHR 0x22\<close>.\<close>

definition convertPaymentId ::
  "CryptoNote \<Rightarrow> string \<Rightarrow> (exception + string) \<times> library_call list" where
  "convertPaymentId L paymentIdString =
     (if paymentIdString = [] then (Inr [], [])
      else
        (case parsePaymentId L paymentIdString of
           None \<Rightarrow>
             (Inl (runtime_error (''Payment id has invalid format: '' @ [CHR 0x22]
                     @ paymentIdString @ [CHR 0x22] @ '', expected 64-character string'')),
              [Call_parsePaymentId paymentIdString])
         | Some paymentId \<Rightarrow>
             (let extra = [];
                  extraNonce = CryptoNote_setPaymentIdToTransactionExtraNonce L paymentId;
                  calls = [Call_parsePaymentId paymentIdString,
                           Call_setPaymentIdToTransactionExtraNonce paymentId,
                           Call_addExtraNonceToTransactionExtra extra extraNonce]
              in case CryptoNote_addExtraNonceToTransactionExtra L extra extraNonce of
                   None \<Rightarrow>
                     (Inl (runtime_error
                        (''Something went wrong with payment_id. Please check its format: ''
                         @ [CHR 0x22] @ paymentIdString @ [CHR 0x22]
                         @ '', expected 64-character string'')),
                      calls)
                 | Some extra' \<Rightarrow> (Inr (map char_of_byte extra'), calls))))"

definition extractPaymentId :: "CryptoNote \<Rightarrow> string \<Rightarrow> string" where
  "extractPaymentId L extra =
     (let extraVec = map byte_of_char extra
      in case CryptoNote_getPaymentIdFromTxExtra L extraVec of
           None \<Rightarrow> []
         | Some paymentId \<Rightarrow> if paymentId \<noteq> NULL_HASH then podToHex paymentId else [])"

text \<open>Extraction applied to what conversion returns; the exception of the conversion is
  kept when it throws.\<close>

definition extract_after_convert :: "CryptoNote \<Rightarrow> string \<Rightarrow> exception + string" where
  "extract_after_convert L s =
     (case fst (convertPaymentId L s) of
        Inl e \<Rightarrow> Inl e
      | Inr extra \<Rightarrow> Inr (extractPaymentId L extra))"

subsection \<open>RPC status interpretation (lines 92-104)\<close>

text \<open>
  Modelled from the spec: the macros \<open>CORE_RPC_STATUS_OK\<close> and \<open>CORE_RPC_STATUS_BUSY\<close>
  come from \<open>Rpc/CoreRpcServerCommandsDefinitions.h\<close>, which is not among the wrapper's
  sources; the spec names the two sentinels as the status texts \<open>OK\<close> and \<open>BUSY\<close>.
\<close>

definition CORE_RPC_STATUS_OK :: string where
  "CORE_RPC_STATUS_OK = ''OK''"

definition CORE_RPC_STATUS_BUSY :: string where
  "CORE_RPC_STATUS_BUSY = ''BUSY''"

text \<open>\<open>err\<close> starts empty and is assigned in at most one branch.\<close>

definition interpret_rpc_response :: "bool \<Rightarrow> string \<Rightarrow> string" where
  "interpret_rpc_response ok status =
     (if ok then
        (if status = CORE_RPC_STATUS_BUSY then ''daemon is busy. Please try later''
         else if status \<noteq> CORE_RPC_STATUS_OK then status
         else [])
      else ''possible lost connection to daemon'')"

section \<open>The remote adapter \<open>RpcNode\<close>\<close>

subsection \<open>Connection counters (lines 189-199)\<close>

text \<open>
  \<open>RpcNode\<close> keeps a \<open>CryptoNote::NodeRpcProxy m_node\<close>; the record holds what the
  proxy's accessors \<open>getOutConnectionsCount\<close> and \<open>getIncConnectionsCount\<close> return in the
  current state of the session.
\<close>

record NodeRpcProxy =
  getOutConnectionsCount :: uint64_t
  getIncConnectionsCount :: uint64_t

record RpcNode =
  m_node :: NodeRpcProxy

definition getConnectionsCount :: "RpcNode \<Rightarrow> uint64_t" where
  "getConnectionsCount n = getOutConnectionsCount (m_node n)"

definition getOutgoingConnectionsCount :: "RpcNode \<Rightarrow> uint64_t" where
  "getOutgoingConnectionsCount n = getOutConnectionsCount (m_node n)"

definition getIncomingConnectionsCount :: "RpcNode \<Rightarrow> uint64_t" where
  "getIncomingConnectionsCount n = getIncConnectionsCount (m_node n)"

subsection \<open>Mining template and block submission (lines 221-281)\<close>

text \<open>\<open>CryptoNote::AccountKeys\<close>: the public address and the two secret keys.\<close>

record AccountPublicAddress =
  spendPublicKey :: PublicKey
  viewPublicKey :: PublicKey

record AccountKeys =
  address :: AccountPublicAddress
  spendSecretKey :: SecretKey
  viewSecretKey :: SecretKey

text \<open>
  The RPC structures, with the members the wrapper reads or writes. The request of
  \<open>getblocktemplate\<close> is value-initialised, and the wrapper assigns \<open>miner_spend_key\<close>
  and \<open>miner_view_key\<close> only; the request of \<open>submitblock\<close> is a vector of strings.
\<close>

record COMMAND_RPC_GETBLOCKTEMPLATE_request =
  miner_spend_key :: string
  miner_view_key :: string

record STATUS_STRUCT =
  status :: string

record COMMAND_RPC_GETBLOCKTEMPLATE_response = STATUS_STRUCT +
  blocktemplate_blob :: string
  difficulty :: uint64_t
  height :: uint32_t

type_synonym COMMAND_RPC_SUBMITBLOCK_request = "string list"

text \<open>
  What the adapter calls outside itself: \<open>invokeJsonRpcCommand\<close> for each of the two
  methods, which fills the response or throws, and the block serialisation
  \<open>CryptoNote::fromBinaryArray\<close> (\<open>false\<close> is \<open>None\<close>) and \<open>CryptoNote::toBinaryArray\<close>.
  \<open>'b\<close> is \<open>CryptoNote::BlockTemplate\<close>.
\<close>

record 'b Daemon =
  invoke_getblocktemplate ::
    "COMMAND_RPC_GETBLOCKTEMPLATE_request \<Rightarrow> exception + COMMAND_RPC_GETBLOCKTEMPLATE_response"
  invoke_submitblock :: "COMMAND_RPC_SUBMITBLOCK_request \<Rightarrow> exception + STATUS_STRUCT"
  fromBinaryArray :: "BinaryArray \<Rightarrow> 'b option"
  toBinaryArray :: "'b \<Rightarrow> exception + BinaryArray"

text \<open>What a call does besides returning: the calls of \<open>invokeJsonRpcCommand\<close>, each
  with the request handed to it, and the lines logged at level \<open>INFO\<close>, in order.\<close>

datatype rpc_effect =
    Rpc_getblocktemplate COMMAND_RPC_GETBLOCKTEMPLATE_request
  | Rpc_submitblock COMMAND_RPC_SUBMITBLOCK_request
  | Log_INFO string

text \<open>
  The \<open>try\<close> block of \<open>getBlockTemplate\<close>. Its result is the exception thrown inside
  it, or the returned flag with the values written to \<open>b\<close>, \<open>diffic\<close> and \<open>height\<close>.
  The branch that logs \<open>Failed to invoke request\<close> leaves the block and reaches the
  final \<open>return false\<close>.
\<close>

definition getBlockTemplate_try ::
  "'b Daemon \<Rightarrow> AccountKeys \<Rightarrow> BinaryArray
     \<Rightarrow> rpc_effect list \<times> (exception + bool \<times> ('b \<times> uint64_t \<times> uint32_t) option)" where
  "getBlockTemplate_try D acc ex_nonce =
     (let req = \<lparr>miner_spend_key = podToHex (spendSecretKey acc),
                 miner_view_key = podToHex (viewSecretKey acc)\<rparr>
      in case invoke_getblocktemplate D req of
           Inl e \<Rightarrow> ([Rpc_getblocktemplate req], Inl e)
         | Inr rsp \<Rightarrow>
             (let err = interpret_rpc_response True (status rsp)
              in if err = [] then
                   (case Common_fromHex (blocktemplate_blob rsp) of
                      Inl e \<Rightarrow> ([Rpc_getblocktemplate req], Inl e)
                    | Inr blob \<Rightarrow>
                        (case fromBinaryArray D blob of
                           None \<Rightarrow>
                             ([Rpc_getblocktemplate req,
                               Log_INFO ''Failed to parse block binary array''],
                              Inr (False, None))
                         | Some b \<Rightarrow>
                             ([Rpc_getblocktemplate req],
                              Inr (True, Some (b, difficulty rsp, height rsp)))))
                 else
                   ([Rpc_getblocktemplate req, Log_INFO (''Failed to invoke request: '' @ err)],
                    Inr (False, None))))"

text \<open>The two handlers: \<open>ConnectException\<close> first, then \<open>std::exception\<close>.\<close>

definition getBlockTemplate ::
  "'b Daemon \<Rightarrow> AccountKeys \<Rightarrow> BinaryArray
     \<Rightarrow> rpc_effect list \<times> (exception + bool \<times> ('b \<times> uint64_t \<times> uint32_t) option)" where
  "getBlockTemplate D acc ex_nonce =
     (case getBlockTemplate_try D acc ex_nonce of
        (effects, Inl (ConnectException w)) \<Rightarrow>
          (effects @ [Log_INFO ''Wallet failed to connect to daemon.''], Inr (False, None))
      | (effects, Inl e) \<Rightarrow>
          (effects @ [Log_INFO (''Failed to invoke RPC method: '' @ what e)], Inr (False, None))
      | (effects, Inr r) \<Rightarrow> (effects, Inr r))"

definition handleBlockFound_try ::
  "'b Daemon \<Rightarrow> 'b \<Rightarrow> rpc_effect list \<times> (exception + bool)" where
  "handleBlockFound_try D b =
     (case toBinaryArray D b of
        Inl e \<Rightarrow> ([], Inl e)
      | Inr blob \<Rightarrow>
          (let req = [toHex blob]
           in case invoke_submitblock D req of
                Inl e \<Rightarrow> ([Rpc_submitblock req], Inl e)
              | Inr res \<Rightarrow>
                  (let err = interpret_rpc_response True (status res)
                   in if err = [] then ([Rpc_submitblock req], Inr True)
                      else ([Rpc_submitblock req,
                             Log_INFO (''Failed to invoke request: '' @ err)],
                            Inr False))))"

definition handleBlockFound ::
  "'b Daemon \<Rightarrow> 'b \<Rightarrow> rpc_effect list \<times> (exception + bool)" where
  "handleBlockFound D b =
     (case handleBlockFound_try D b of
        (effects, Inl (ConnectException w)) \<Rightarrow>
          (effects @ [Log_INFO ''Wallet failed to connect to daemon.''], Inr False)
      | (effects, Inl e) \<Rightarrow>
          (effects @ [Log_INFO (''Failed to invoke RPC method: '' @ what e)], Inr False)
      | (effects, Inr r) \<Rightarrow> (effects, Inr r))"

text \<open>Two daemons for concrete runs: one that cannot be reached, and one that answers
  every call with an empty status text. Blocks are their own serialisation.\<close>

definition unreachable_daemon :: "BinaryArray Daemon" where
  "unreachable_daemon =
     \<lparr>invoke_getblocktemplate = (\<lambda>req. Inl (ConnectException ''connect'')),
      invoke_submitblock = (\<lambda>req. Inl (ConnectException ''connect'')),
      fromBinaryArray = Some,
      toBinaryArray = Inr\<rparr>"

definition empty_status_daemon :: "BinaryArray Daemon" where
  "empty_status_daemon =
     \<lparr>invoke_getblocktemplate =
        (\<lambda>req. Inr \<lparr>status = [], blocktemplate_blob = [], difficulty = 0, height = 0\<rparr>),
      invoke_submitblock = (\<lambda>req. Inr \<lparr>status = []\<rparr>),
      fromBinaryArray = Some,
      toBinaryArray = Inr\<rparr>"

section \<open>The embedded node \<open>InprocessNode\<close>\<close>

subsection \<open>Transaction count (lines 440-442)\<close>

text \<open>
  The record holds what \<open>CryptoNote::Core\<close> answers in the current state. The core's
  header is not among the wrapper's sources; in the CryptoNote library
  \<open>getBlockchainTransactionsCount\<close> returns a \<open>size_t\<close> and
  \<open>getCurrentBlockchainHeight\<close> a \<open>uint32_t\<close>. The subtraction converts the height to
  the wider unsigned type and wraps around; the result is returned as \<open>uint64_t\<close>.
\<close>

record Core =
  getBlockchainTransactionsCount :: size_t
  getCurrentBlockchainHeight :: uint32_t

record InprocessNode =
  m_core :: Core

definition getTxCount :: "InprocessNode \<Rightarrow> uint64_t" where
  "getTxCount n =
     getBlockchainTransactionsCount (m_core n) - ucast (getCurrentBlockchainHeight (m_core n))"

subsection \<open>Start and shutdown (lines 378-410)\<close>

text \<open>
  \<open>init\<close> is a sequence of calls on the members of the node. The model returns the
  calls the thread that runs \<open>init\<close> makes, in order, and how the call ends. The
  completion lambda handed to \<open>m_node.init\<close> runs when the facade reports completion
  and is not part of that sequence.
\<close>

datatype error_code = NOT_INITIALIZED

datatype init_step =
    m_logger_INFO string
  | m_core_rewind uint32_t
  | m_nodeServer_init
  | callback error_code
  | m_node_init
  | m_nodeServer_run
  | m_nodeServer_deinit
  | m_core_save
  | m_database_shutdown
  | m_node_shutdown
  | m_nodeServer_sendStopSignal

text \<open>\<open>init\<close> returns, lets an exception through, or stays in \<open>m_nodeServer.run()\<close>.\<close>

datatype init_end = Returned | Propagated exception | Blocked

datatype 'a outcome = Returns 'a | Throws exception

text \<open>
  What \<open>init\<close> meets: the configured rewind height (\<open>Settings::getRollBack\<close>), how
  \<open>m_core.rewind\<close> and \<open>m_nodeServer.init\<close> end, and whether the run loop of the P2P
  server returns, which it does once the stop signal of \<open>deinit\<close> has reached it.
\<close>

record init_env =
  getRollBack :: uint32_t
  rewind_outcome :: "unit outcome"
  nodeServer_init_outcome :: "bool outcome"
  nodeServer_run_returns :: bool

text \<open>The \<open>try\<close> block: \<open>Inr False\<close> when it returned after the callback, \<open>Inr True\<close>
  when control leaves it at its end. \<open>0xFFFFFFFF\<close> is
  \<open>std::numeric_limits<uint32_t>::max()\<close>.\<close>

definition init_try :: "init_env \<Rightarrow> init_step list \<times> (exception + bool)" where
  "init_try env =
     (let rewind = (if getRollBack env \<noteq> 0xFFFFFFFF then [m_core_rewind (getRollBack env)] else [])
      in case (if getRollBack env \<noteq> 0xFFFFFFFF then rewind_outcome env else Returns ()) of
           Throws e \<Rightarrow> (rewind, Inl e)
         | Returns u \<Rightarrow>
             (case nodeServer_init_outcome env of
                Throws e \<Rightarrow> (rewind @ [m_nodeServer_init], Inl e)
              | Returns False \<Rightarrow>
                  (rewind @ [m_nodeServer_init, callback NOT_INITIALIZED], Inr False)
              | Returns True \<Rightarrow> (rewind @ [m_nodeServer_init], Inr True)))"

definition init :: "init_env \<Rightarrow> init_step list \<times> init_end" where
  "init env =
     (let started = [m_logger_INFO ''Initializing InprocessNode...'']
      in case init_try env of
           (steps, Inl e) \<Rightarrow>
             (if is_runtime_error e then (started @ steps @ [callback NOT_INITIALIZED], Returned)
              else (started @ steps, Propagated e))
         | (steps, Inr False) \<Rightarrow> (started @ steps, Returned)
         | (steps, Inr True) \<Rightarrow>
             (if nodeServer_run_returns env then
                (started @ steps @ [m_node_init, m_nodeServer_run, m_nodeServer_deinit,
                   m_core_save, m_database_shutdown, m_node_shutdown],
                 Returned)
              else (started @ steps @ [m_node_init, m_nodeServer_run], Blocked)))"

definition deinit :: "init_step list" where
  "deinit = [m_nodeServer_sendStopSignal]"

text \<open>\<open>occurs_before a b xs\<close>: some \<open>b\<close> stands after the first \<open>a\<close> of \<open>xs\<close>.\<close>

fun occurs_before :: "'a \<Rightarrow> 'a \<Rightarrow> 'a list \<Rightarrow> bool" where
  "occurs_before a b [] = False"
| "occurs_before a b (x # xs) = (if x = a then b \<in> set xs else occurs_before a b xs)"

section \<open>Checkpoint bootstrap of \<open>createInprocessNode\<close> (lines 625-639)\<close>

text \<open>The three settings the bootstrap reads; \<open>alowReorg\<close> is the accessor's name in the
  source.\<close>

record Settings =
  alowReorg :: bool
  withoutCheckpoints :: bool
  isTestnet :: bool

record CheckpointData =
  index :: uint32_t
  blockId :: string

text \<open>
  The class \<open>CryptoNote::Checkpoints\<close> is used through its constructor (which takes the
  reorganisation flag) and two methods. \<open>'c\<close> is the state of a \<open>Checkpoints\<close> object;
  a method returns the state it leaves.
\<close>

record 'c Checkpoints =
  Checkpoints_new :: "bool \<Rightarrow> 'c"
  addCheckpoint :: "uint32_t \<Rightarrow> string \<Rightarrow> 'c \<Rightarrow> 'c"
  loadCheckpointsFromDns :: "'c \<Rightarrow> 'c"

text \<open>The bootstrap returns the \<open>Checkpoints\<close> object handed to the node and the lines
  written through \<open>LoggerAdapter\<close>. \<open>CHECKPOINTS\<close> is the built-in table of
  \<open>Checkpoints/CheckpointsData.h\<close>.\<close>

definition createInprocessNode_checkpoints ::
  "'c Checkpoints \<Rightarrow> Settings \<Rightarrow> CheckpointData list \<Rightarrow> 'c \<times> string list" where
  "createInprocessNode_checkpoints K settings CHECKPOINTS =
     (let allowReorg = alowReorg settings;
          logged = (if allowReorg then [''Deep reorganization is allowed!''] else []);
          checkpoints = Checkpoints_new K allowReorg
      in if withoutCheckpoints settings then
           (checkpoints, logged @ [''Loading without checkpoints''])
         else if isTestnet settings then
           (checkpoints, logged @ [''Running in Testnet mode''])
         else
           (loadCheckpointsFromDns K
              (fold (\<lambda>checkpoint. addCheckpoint K (index checkpoint) (blockId checkpoint))
                 CHECKPOINTS checkpoints),
            logged))"

text \<open>A \<open>Checkpoints\<close> object that records the flag it was built with and the method
  calls made on it.\<close>

datatype checkpoints_call =
    Call_addCheckpoint uint32_t string
  | Call_loadCheckpointsFromDns

definition recording_Checkpoints :: "(bool \<times> checkpoints_call list) Checkpoints" where
  "recording_Checkpoints =
     \<lparr>Checkpoints_new = (\<lambda>allowReorg. (allowReorg, [])),
      addCheckpoint = (\<lambda>i h (r, calls). (r, calls @ [Call_addCheckpoint i h])),
      loadCheckpointsFromDns = (\<lambda>(r, calls). (r, calls @ [Call_loadCheckpointsFromDns]))\<rparr>"

section \<open>Properties of the codec\<close>

subsection \<open>Bytes and hex digits\<close>

lemma byte_of_char_of_byte: "byte_of_char (char_of_byte b) = b"
proof -
  have "unat b < 256" using unsigned_less [of b, where 'a = nat] by simp
  then show ?thesis by (simp add: byte_of_char_def char_of_byte_def of_char_of)
qed

lemma map_byte_of_char_of_byte: "map byte_of_char (map char_of_byte bs) = bs"
  by (induction bs) (simp_all add: byte_of_char_of_byte)

lemma position_nth: "distinct xs \<Longrightarrow> n < length xs \<Longrightarrow> position (xs ! n) xs = Some n"
proof (induction xs arbitrary: n)
  case Nil
  then show ?case by simp
next
  case (Cons y ys)
  then show ?case by (cases n) auto
qed

lemma fromHexChar_None: "c \<notin> set hexChars \<Longrightarrow> fromHexChar c = None"
  by (simp add: fromHexChar_def hexChars_def)

lemma fromHexChar_Some:
  "c \<in> set hexChars \<Longrightarrow> \<exists>n<16. fromHexChar c = Some n \<and> hexDigit n = lowerHex c"
  unfolding hexChars_def
  by (auto simp: fromHexChar_def hexDigit_def lowerHex_def)

lemma fromHexChar_range: "fromHexChar c = Some n \<Longrightarrow> n < 16"
  using fromHexChar_None [of c] fromHexChar_Some [of c] by (cases "c \<in> set hexChars") auto

lemma hexDigit_fromHexChar: "fromHexChar c = Some n \<Longrightarrow> hexDigit n = lowerHex c"
  using fromHexChar_None [of c] fromHexChar_Some [of c] by (cases "c \<in> set hexChars") auto

lemma fromHexChar_hexDigit:
  assumes "n < 16"
  shows "fromHexChar (hexDigit n) = Some n"
proof -
  have "position (''0123456789abcdef'' ! n) ''0123456789abcdef'' = Some n"
    by (rule position_nth) (use assms in simp_all)
  then show ?thesis by (simp add: fromHexChar_def hexDigit_def)
qed

lemma unat_nibbles:
  assumes "hi < 16" "lo < 16"
  shows "unat (of_nat (16 * hi + lo) :: byte) = 16 * hi + lo"
proof -
  have "16 * hi + lo < 256" using assms by arith
  then show ?thesis by (simp only: unat_of_nat) simp
qed

text \<open>Decoding undoes encoding, so the encoding is injective.\<close>

lemma fromHex_toHex: "fromHex (toHex bs) = Some bs"
proof (induction bs)
  case Nil
  show ?case by simp
next
  case (Cons b bs)
  have "unat b < 256" using unsigned_less [of b, where 'a = nat] by simp
  then have "unat b div 16 < 16" by simp
  moreover have "unat b mod 16 < 16" by simp
  ultimately show ?case using Cons
    by (simp add: fromHexChar_hexDigit)
qed

lemma toHex_inj:
  assumes "toHex a = toHex b"
  shows "a = b"
proof -
  have "Some a = fromHex (toHex a)" by (simp only: fromHex_toHex)
  also have "\<dots> = fromHex (toHex b)" by (simp only: assms)
  also have "\<dots> = Some b" by (simp only: fromHex_toHex)
  finally show ?thesis by simp
qed

lemma podToHex_inj: "podToHex a = podToHex b \<longleftrightarrow> a = b"
  using toHex_inj [of a b] by (auto simp: podToHex_def)

lemma length_toHex: "length (toHex bs) = 2 * length bs"
  by (induction bs) simp_all

text \<open>Encoding what was decoded gives the text back in lower case.\<close>

lemma toHex_fromHex: "fromHex s = Some bs \<Longrightarrow> toHex bs = map lowerHex s"
proof (induction s arbitrary: bs rule: fromHex.induct)
  case 1
  then show ?case by simp
next
  case (2 c)
  then show ?case by simp
next
  case (3 c d cs)
  from "3.prems" obtain hi lo bs' where
    hi: "fromHexChar c = Some hi" and lo: "fromHexChar d = Some lo"
    and rest: "fromHex cs = Some bs'" and bs: "bs = of_nat (16 * hi + lo) # bs'"
    by (auto split: option.splits)
  have u: "unat (of_nat (16 * hi + lo) :: byte) = 16 * hi + lo"
    using unat_nibbles fromHexChar_range [OF hi] fromHexChar_range [OF lo] by simp
  have "lo < 16" by (rule fromHexChar_range [OF lo])
  then have dm: "(16 * hi + lo) div 16 = hi" "(16 * hi + lo) mod 16 = lo" by simp_all
  have "toHex bs' = map lowerHex cs" by (rule "3.IH" [OF hi lo rest])
  then show ?case
    unfolding bs toHex.simps u dm by (simp add: hexDigit_fromHexChar hi lo)
qed

lemma length_fromHex: "fromHex s = Some bs \<Longrightarrow> length s = 2 * length bs"
  by (induction s arbitrary: bs rule: fromHex.induct) (auto split: option.splits)

lemma fromHex_defined:
  "even (length s) \<Longrightarrow> list_all (\<lambda>c. c \<in> set hexChars) s \<Longrightarrow> \<exists>bs. fromHex s = Some bs"
proof (induction s rule: fromHex.induct)
  case 1
  show ?case by simp
next
  case (2 c)
  then show ?case by simp
next
  case (3 c d cs)
  from "3.prems" obtain hi lo where hi: "fromHexChar c = Some hi" and lo: "fromHexChar d = Some lo"
    using fromHexChar_Some [of c] fromHexChar_Some [of d] by auto
  from "3.prems" have "even (length cs)" "list_all (\<lambda>c. c \<in> set hexChars) cs" by simp_all
  with "3.IH" [OF hi lo] obtain bs where "fromHex cs = Some bs" by blast
  with hi lo show ?case by simp
qed

lemma fromHex_hexChars:
  "fromHex s = Some bs \<Longrightarrow> list_all (\<lambda>c. c \<in> set hexChars) s"
proof (induction s arbitrary: bs rule: fromHex.induct)
  case 1
  show ?case by simp
next
  case (2 c)
  then show ?case by simp
next
  case (3 c d cs)
  from "3.prems" obtain hi lo bs' where
    hi: "fromHexChar c = Some hi" and lo: "fromHexChar d = Some lo"
    and rest: "fromHex cs = Some bs'"
    by (auto split: option.splits)
  have "c \<in> set hexChars" using fromHexChar_None [of c] hi by auto
  moreover have "d \<in> set hexChars" using fromHexChar_None [of d] lo by auto
  ultimately show ?case using "3.IH" [OF hi lo rest] by simp
qed

lemma lowerHex_zero: "lowerHex c = CHR ''0'' \<Longrightarrow> c = CHR ''0''"
  by (simp add: lowerHex_def split: if_splits)

lemma map_lowerHex_zeros:
  "map lowerHex s = replicate n (CHR ''0'') \<Longrightarrow> s = replicate n (CHR ''0'')"
proof (induction s arbitrary: n)
  case Nil
  then show ?case by simp
next
  case (Cons c s)
  then show ?case by (cases n) (auto dest: lowerHex_zero)
qed

lemma map_lowerHex_lower:
  "list_all (\<lambda>c. c \<in> set lowerHexChars) s \<Longrightarrow> map lowerHex s = s"
  by (induction s) (auto simp: lowerHexChars_def lowerHex_def)

lemma toHex_replicate_zero: "toHex (replicate n 0) = replicate (2 * n) (CHR ''0'')"
  by (induction n) (simp_all add: hexDigit_def)

lemma fromHex_NULL_HASH_iff:
  assumes "fromHex s = Some h"
  shows "h = NULL_HASH \<longleftrightarrow> s = replicate 64 (CHR ''0'')"
proof
  assume "h = NULL_HASH"
  then have "map lowerHex s = replicate 64 (CHR ''0'')"
    using toHex_fromHex [OF assms] toHex_replicate_zero [of 32] by (simp add: NULL_HASH_def)
  then show "s = replicate 64 (CHR ''0'')" by (rule map_lowerHex_zeros)
next
  assume "s = replicate 64 (CHR ''0'')"
  then have "s = toHex NULL_HASH"
    using toHex_replicate_zero [of 32] by (simp add: NULL_HASH_def)
  then have "fromHex s = Some NULL_HASH" by (simp only: fromHex_toHex)
  with assms show "h = NULL_HASH" by simp
qed

lemma podToHex_NULL_HASH_neq: "h \<noteq> NULL_HASH \<Longrightarrow> podToHex h \<noteq> podToHex NULL_HASH"
  using toHex_inj [of h NULL_HASH] by (auto simp: podToHex_def)

lemma podToHex_NULL_HASH_nonempty: "podToHex NULL_HASH \<noteq> []"
  using length_toHex [of NULL_HASH] by (auto simp: podToHex_def NULL_HASH_def)

lemma zeros_64:
  "replicate 64 (CHR ''0'')
   = ''0000000000000000000000000000000000000000000000000000000000000000''"
  by code_simp

subsection \<open>The modelled library\<close>

text \<open>The modelled \<open>parsePaymentId\<close> accepts exactly the valid identifiers.\<close>

lemma parsePaymentId_spec_Some_iff:
  "(\<exists>h. parsePaymentId_spec s = Some h) \<longleftrightarrow> valid_payment_id s"
proof
  assume "\<exists>h. parsePaymentId_spec s = Some h"
  then obtain h where h: "fromHex s = Some h" "length h = 32"
    by (auto simp: parsePaymentId_spec_def split: option.splits if_splits)
  then show "valid_payment_id s"
    using length_fromHex [OF h(1)] fromHex_hexChars [OF h(1)] by (simp add: valid_payment_id_def)
next
  assume v: "valid_payment_id s"
  then have "even (length s)" by (simp add: valid_payment_id_def)
  with v obtain bs where bs: "fromHex s = Some bs"
    using fromHex_defined [of s] by (auto simp: valid_payment_id_def)
  with v have "length bs = 32" using length_fromHex [OF bs] by (simp add: valid_payment_id_def)
  with bs show "\<exists>h. parsePaymentId_spec s = Some h" by (simp add: parsePaymentId_spec_def)
qed

lemma parsePaymentId_spec_SomeD:
  "parsePaymentId_spec s = Some h \<Longrightarrow> fromHex s = Some h \<and> length h = 32"
  by (auto simp: parsePaymentId_spec_def split: option.splits if_splits)

lemma parsePaymentId_spec_invalid:
  assumes "\<not> valid_payment_id s"
  shows "parsePaymentId CryptoNote_spec s = None"
  using assms parsePaymentId_spec_Some_iff [of s]
  by (cases "parsePaymentId_spec s") (auto simp: parsePaymentId_def CryptoNote_spec_def)

lemma getPaymentIdFromTxExtra_spec_nonce:
  assumes "length h = 32"
  shows "getPaymentIdFromTxExtra_spec ([TX_EXTRA_NONCE, 33] @ TX_EXTRA_NONCE_PAYMENT_ID # h) = Some h"
  using assms
  by (simp add: getPaymentIdFromTxExtra_spec_def TX_EXTRA_NONCE_def TX_EXTRA_TAG_PADDING_def
      TX_EXTRA_TAG_PUBKEY_def getPaymentIdFromTransactionExtraNonce_def)

lemma convertPaymentId_spec_valid:
  assumes "parsePaymentId_spec s = Some h"
  shows "fst (convertPaymentId CryptoNote_spec s)
         = Inr (map char_of_byte ([TX_EXTRA_NONCE, 33] @ TX_EXTRA_NONCE_PAYMENT_ID # h))"
proof -
  from assms have len: "length h = 32" and ne: "s \<noteq> []"
    using parsePaymentId_spec_SomeD [OF assms] length_fromHex [of s h] by auto
  show ?thesis
    using assms len ne
    by (simp add: convertPaymentId_def parsePaymentId_def CryptoNote_spec_def
        setPaymentIdToTransactionExtraNonce_spec_def addExtraNonceToTransactionExtra_spec_def
        TX_EXTRA_NONCE_MAX_COUNT_def)
qed

lemma extract_after_convert_spec:
  assumes "valid_payment_id s"
  shows "extract_after_convert CryptoNote_spec s
         = Inr (if s = replicate 64 (CHR ''0'') then [] else map lowerHex s)"
proof -
  from assms obtain h where h: "parsePaymentId_spec s = Some h"
    using parsePaymentId_spec_Some_iff [of s] by blast
  then have fh: "fromHex s = Some h" and len: "length h = 32"
    using parsePaymentId_spec_SomeD by blast+
  have "extractPaymentId CryptoNote_spec
          (map char_of_byte ([TX_EXTRA_NONCE, 33] @ TX_EXTRA_NONCE_PAYMENT_ID # h))
        = (if h \<noteq> NULL_HASH then podToHex h else [])"
    unfolding extractPaymentId_def Let_def map_byte_of_char_of_byte
    using getPaymentIdFromTxExtra_spec_nonce [OF len] by (simp add: CryptoNote_spec_def)
  then show ?thesis
    using convertPaymentId_spec_valid [OF h] toHex_fromHex [OF fh] fromHex_NULL_HASH_iff [OF fh]
    by (simp add: extract_after_convert_def podToHex_def)
qed

subsection \<open>Round trip\<close>

text \<open>
  C1, as the code has it. For every valid 64-character hex payment identifier,
  conversion succeeds and extraction from the converted bytes returns the identifier
  with its hex digits in lower case, except for the all-zero identifier, for which it
  returns the empty string. So an identifier written in lower case that is not the
  all-zero one comes back unchanged.
\<close>

theorem payment_id_round_trip:
  assumes "valid_payment_id s"
  shows "extract_after_convert CryptoNote_spec s
           = Inr (if s = replicate 64 (CHR ''0'') then [] else map lowerHex s)
         \<and> (list_all (\<lambda>c. c \<in> set lowerHexChars) s \<and> s \<noteq> replicate 64 (CHR ''0'')
              \<longrightarrow> extract_after_convert CryptoNote_spec s = Inr s)"
  using extract_after_convert_spec [OF assms] map_lowerHex_lower [of s] by simp

theorem payment_id_round_trip_witness:
  "valid_payment_id ''0123456789abcdef0123456789abcdef0123456789abcdef0123456789abcdef''
   \<and> extract_after_convert CryptoNote_spec
        ''0123456789abcdef0123456789abcdef0123456789abcdef0123456789abcdef''
       = Inr ''0123456789abcdef0123456789abcdef0123456789abcdef0123456789abcdef''
   \<and> valid_payment_id ''0123456789ABCDEF0123456789abcdef0123456789abcdef0123456789abcdef''
   \<and> extract_after_convert CryptoNote_spec
        ''0123456789ABCDEF0123456789abcdef0123456789abcdef0123456789abcdef''
       = Inr ''0123456789abcdef0123456789abcdef0123456789abcdef0123456789abcdef''"
proof -
  have v1: "valid_payment_id ''0123456789abcdef0123456789abcdef0123456789abcdef0123456789abcdef''"
    by (simp add: valid_payment_id_def hexChars_def)
  have v2: "valid_payment_id ''0123456789ABCDEF0123456789abcdef0123456789abcdef0123456789abcdef''"
    by (simp add: valid_payment_id_def hexChars_def)
  show ?thesis
    using v1 v2 payment_id_round_trip [OF v1] payment_id_round_trip [OF v2]
    by (simp add: zeros_64 lowerHex_def lowerHexChars_def)
qed

text \<open>
  C1 as the claim words it fails: the all-zero identifier is a valid 64-character hex
  identifier, and extraction from its converted bytes returns the empty string; an
  identifier written with upper-case digits comes back in lower case.
\<close>

theorem payment_id_round_trip_counterexample:
  "valid_payment_id ''0000000000000000000000000000000000000000000000000000000000000000''
   \<and> extract_after_convert CryptoNote_spec
        ''0000000000000000000000000000000000000000000000000000000000000000''
       \<noteq> Inr ''0000000000000000000000000000000000000000000000000000000000000000''
   \<and> valid_payment_id ''ABCDEF0123456789abcdef0123456789abcdef0123456789abcdef0123456789''
   \<and> extract_after_convert CryptoNote_spec
        ''ABCDEF0123456789abcdef0123456789abcdef0123456789abcdef0123456789''
       \<noteq> Inr ''ABCDEF0123456789abcdef0123456789abcdef0123456789abcdef0123456789''"
proof -
  have v: "valid_payment_id ''0000000000000000000000000000000000000000000000000000000000000000''"
    by (simp add: valid_payment_id_def hexChars_def)
  have w: "valid_payment_id ''ABCDEF0123456789abcdef0123456789abcdef0123456789abcdef0123456789''"
    by (simp add: valid_payment_id_def hexChars_def)
  show ?thesis
    using v w extract_after_convert_spec [OF v] extract_after_convert_spec [OF w]
    by (simp add: zeros_64 lowerHex_def)
qed

subsection \<open>Conversion failures\<close>

text \<open>
  C4. On the empty string \<open>convertPaymentId\<close> returns the empty string and makes no
  library call. On a non-empty string that \<open>parsePaymentId\<close> rejects (with the modelled
  library: every non-empty string that is not 64 hex digits) it throws the error
  \<open>Payment id has invalid format\<close>, which quotes the string and says that 64 characters
  are expected, and has called the parser only. When the encoder
  \<open>addExtraNonceToTransactionExtra\<close> fails it throws the error \<open>Something went wrong
  with payment_id\<close>, which no format failure produces.
\<close>

theorem convertPaymentId_errors:
  "convertPaymentId L [] = (Inr [], [])
   \<and> (s \<noteq> [] \<and> parsePaymentId L s = None \<longrightarrow>
        convertPaymentId L s
          = (Inl (runtime_error (''Payment id has invalid format: '' @ [CHR 0x22] @ s
                    @ [CHR 0x22] @ '', expected 64-character string'')),
             [Call_parsePaymentId s]))
   \<and> (s \<noteq> [] \<and> \<not> valid_payment_id s \<longrightarrow>
        convertPaymentId CryptoNote_spec s
          = (Inl (runtime_error (''Payment id has invalid format: '' @ [CHR 0x22] @ s
                    @ [CHR 0x22] @ '', expected 64-character string'')),
             [Call_parsePaymentId s]))
   \<and> (t \<noteq> [] \<and> parsePaymentId L' t = Some h
        \<and> CryptoNote_addExtraNonceToTransactionExtra L' []
             (CryptoNote_setPaymentIdToTransactionExtraNonce L' h) = None \<longrightarrow>
        fst (convertPaymentId L' t)
          = Inl (runtime_error
              (''Something went wrong with payment_id. Please check its format: ''
               @ [CHR 0x22] @ t @ [CHR 0x22] @ '', expected 64-character string''))
        \<and> (s \<noteq> [] \<and> parsePaymentId L s = None \<longrightarrow>
             fst (convertPaymentId L' t) \<noteq> fst (convertPaymentId L s)))"
  using parsePaymentId_spec_invalid [of s]
  by (simp add: convertPaymentId_def)

theorem convertPaymentId_errors_witness:
  "convertPaymentId CryptoNote_spec [] = (Inr [], [])
   \<and> convertPaymentId CryptoNote_spec ''xyz''
       = (Inl (runtime_error (''Payment id has invalid format: '' @ [CHR 0x22] @ ''xyz''
                 @ [CHR 0x22] @ '', expected 64-character string'')),
          [Call_parsePaymentId ''xyz''])
   \<and> fst (convertPaymentId
            (CryptoNote_spec\<lparr>CryptoNote_addExtraNonceToTransactionExtra := \<lambda>tx_extra extra_nonce. None\<rparr>)
            ''0123456789abcdef0123456789abcdef0123456789abcdef0123456789abcdef'')
       = Inl (runtime_error
              (''Something went wrong with payment_id. Please check its format: ''
               @ [CHR 0x22] @ ''0123456789abcdef0123456789abcdef0123456789abcdef0123456789abcdef''
               @ [CHR 0x22] @ '', expected 64-character string''))
   \<and> fst (convertPaymentId
            (CryptoNote_spec\<lparr>CryptoNote_addExtraNonceToTransactionExtra := \<lambda>tx_extra extra_nonce. None\<rparr>)
            ''0123456789abcdef0123456789abcdef0123456789abcdef0123456789abcdef'')
       \<noteq> fst (convertPaymentId CryptoNote_spec ''xyz'')"
proof -
  have v: "valid_payment_id ''0123456789abcdef0123456789abcdef0123456789abcdef0123456789abcdef''"
    by (simp add: valid_payment_id_def hexChars_def)
  then obtain h where
    h: "parsePaymentId_spec ''0123456789abcdef0123456789abcdef0123456789abcdef0123456789abcdef'' = Some h"
    using parsePaymentId_spec_Some_iff by blast
  have nv: "\<not> valid_payment_id ''xyz''" by (simp add: valid_payment_id_def)
  have p: "parsePaymentId CryptoNote_spec ''xyz'' = None"
    by (rule parsePaymentId_spec_invalid [OF nv])
  show ?thesis
    using convertPaymentId_errors
      [of CryptoNote_spec "''xyz''"
          "''0123456789abcdef0123456789abcdef0123456789abcdef0123456789abcdef''"
          "CryptoNote_spec\<lparr>CryptoNote_addExtraNonceToTransactionExtra := \<lambda>tx_extra extra_nonce. None\<rparr>"
          h]
      h p nv
    by (simp add: parsePaymentId_def CryptoNote_spec_def)
qed

subsection \<open>Extraction\<close>

text \<open>
  C5. For every extra string, \<open>extractPaymentId\<close> returns the empty string when the
  library finds no embedded identifier, the empty string when the embedded identifier
  is the all-zero sentinel \<open>NULL_HASH\<close>, and the hex encoding of the embedded identifier
  otherwise; it never returns the hex encoding of the sentinel.
\<close>

theorem extractPaymentId_cases:
  "(CryptoNote_getPaymentIdFromTxExtra L (map byte_of_char extra) = None
      \<longrightarrow> extractPaymentId L extra = [])
   \<and> (CryptoNote_getPaymentIdFromTxExtra L (map byte_of_char extra) = Some NULL_HASH
      \<longrightarrow> extractPaymentId L extra = [])
   \<and> (CryptoNote_getPaymentIdFromTxExtra L (map byte_of_char extra) = Some h \<and> h \<noteq> NULL_HASH
      \<longrightarrow> extractPaymentId L extra = podToHex h)
   \<and> extractPaymentId L extra \<noteq> podToHex NULL_HASH"
  using podToHex_NULL_HASH_neq podToHex_NULL_HASH_nonempty
  by (auto simp: extractPaymentId_def Let_def split: option.splits)

theorem extractPaymentId_cases_witness:
  "extractPaymentId CryptoNote_spec [] = []
   \<and> extractPaymentId CryptoNote_spec
        (map char_of_byte ([TX_EXTRA_NONCE, 33] @ TX_EXTRA_NONCE_PAYMENT_ID # NULL_HASH)) = []
   \<and> extractPaymentId CryptoNote_spec
        (map char_of_byte ([TX_EXTRA_NONCE, 33] @ TX_EXTRA_NONCE_PAYMENT_ID # replicate 32 17))
       = replicate 64 (CHR ''1'')"
proof -
  have n: "CryptoNote_getPaymentIdFromTxExtra CryptoNote_spec (map byte_of_char []) = None"
    by (simp add: CryptoNote_spec_def getPaymentIdFromTxExtra_spec_def)
  have z: "CryptoNote_getPaymentIdFromTxExtra CryptoNote_spec
             (map byte_of_char
               (map char_of_byte ([TX_EXTRA_NONCE, 33] @ TX_EXTRA_NONCE_PAYMENT_ID # NULL_HASH)))
           = Some NULL_HASH"
    unfolding map_byte_of_char_of_byte
    using getPaymentIdFromTxExtra_spec_nonce [of NULL_HASH]
    by (simp add: CryptoNote_spec_def NULL_HASH_def)
  have o: "CryptoNote_getPaymentIdFromTxExtra CryptoNote_spec
             (map byte_of_char
               (map char_of_byte ([TX_EXTRA_NONCE, 33] @ TX_EXTRA_NONCE_PAYMENT_ID # replicate 32 17)))
           = Some (replicate 32 17)"
    unfolding map_byte_of_char_of_byte
    using getPaymentIdFromTxExtra_spec_nonce [of "replicate 32 17"]
    by (simp add: CryptoNote_spec_def)
  have ne: "replicate 32 (17::byte) \<noteq> NULL_HASH"
    by (simp add: NULL_HASH_def)
  have hx: "podToHex (replicate 32 17) = replicate 64 (CHR ''1'')"
    unfolding podToHex_def by code_simp
  show ?thesis
    using extractPaymentId_cases [of CryptoNote_spec "[]" NULL_HASH]
      extractPaymentId_cases [of CryptoNote_spec
        "map char_of_byte ([TX_EXTRA_NONCE, 33] @ TX_EXTRA_NONCE_PAYMENT_ID # NULL_HASH)" NULL_HASH]
      extractPaymentId_cases [of CryptoNote_spec
        "map char_of_byte ([TX_EXTRA_NONCE, 33] @ TX_EXTRA_NONCE_PAYMENT_ID # replicate 32 17)"
        "replicate 32 17"]
      n z o ne hx
    by simp
qed

section \<open>Properties of the remote adapter\<close>

subsection \<open>RPC status interpretation\<close>

text \<open>
  C2, as the code has it. For every flag \<open>ok\<close> and every status text,
  \<open>interpret_rpc_response\<close> returns \<open>possible lost connection to daemon\<close> when \<open>ok\<close> is
  false, whatever the status; otherwise \<open>daemon is busy. Please try later\<close> when the
  status is the busy sentinel; otherwise the status text itself when it differs from the
  OK sentinel; otherwise the empty string.
\<close>

theorem interpret_rpc_response_cases:
  "interpret_rpc_response ok st =
     (if \<not> ok then ''possible lost connection to daemon''
      else if st = CORE_RPC_STATUS_BUSY then ''daemon is busy. Please try later''
      else if st \<noteq> CORE_RPC_STATUS_OK then st
      else [])"
  by (simp add: interpret_rpc_response_def)

theorem interpret_rpc_response_cases_witness:
  "interpret_rpc_response False ''OK'' = ''possible lost connection to daemon''
   \<and> interpret_rpc_response True ''BUSY'' = ''daemon is busy. Please try later''
   \<and> interpret_rpc_response True ''Internal error'' = ''Internal error''
   \<and> interpret_rpc_response True ''OK'' = []"
  using interpret_rpc_response_cases [of False "''OK''"]
    interpret_rpc_response_cases [of True "''BUSY''"]
    interpret_rpc_response_cases [of True "''Internal error''"]
    interpret_rpc_response_cases [of True "''OK''"]
  by (simp add: CORE_RPC_STATUS_OK_def CORE_RPC_STATUS_BUSY_def)

text \<open>
  C2 as the claim words it fails: on the busy sentinel the code does not return the text
  \<open>daemon is busy, try later\<close>.
\<close>

theorem interpret_rpc_response_busy_text_counterexample:
  "interpret_rpc_response True CORE_RPC_STATUS_BUSY \<noteq> ''daemon is busy, try later''"
  by (simp add: interpret_rpc_response_def)

subsection \<open>Connection counters\<close>

text \<open>
  C10. In every state of the remote adapter \<open>getConnectionsCount\<close> returns what
  \<open>getOutgoingConnectionsCount\<close> returns, namely the session's outgoing-connection count;
  the session's incoming-connection count has no influence on it.
\<close>

theorem getConnectionsCount_outgoing_only:
  "getConnectionsCount n = getOutgoingConnectionsCount n
   \<and> getConnectionsCount n = getOutConnectionsCount (m_node n)
   \<and> getConnectionsCount (n\<lparr>m_node := (m_node n)\<lparr>getIncConnectionsCount := k\<rparr>\<rparr>)
       = getConnectionsCount n"
  by (simp add: getConnectionsCount_def getOutgoingConnectionsCount_def)

theorem getConnectionsCount_outgoing_only_witness:
  "getConnectionsCount \<lparr>m_node = \<lparr>getOutConnectionsCount = 8, getIncConnectionsCount = 5\<rparr>\<rparr> = 8
   \<and> getOutgoingConnectionsCount
        \<lparr>m_node = \<lparr>getOutConnectionsCount = 8, getIncConnectionsCount = 5\<rparr>\<rparr> = 8
   \<and> getIncomingConnectionsCount
        \<lparr>m_node = \<lparr>getOutConnectionsCount = 8, getIncConnectionsCount = 5\<rparr>\<rparr> = 5"
  using getConnectionsCount_outgoing_only
    [of "\<lparr>m_node = \<lparr>getOutConnectionsCount = 8, getIncConnectionsCount = 5\<rparr>\<rparr>" 0]
  by (simp add: getOutgoingConnectionsCount_def getIncomingConnectionsCount_def)

subsection \<open>The request of \<open>getBlockTemplate\<close>\<close>

lemma getBlockTemplate_effects:
  "\<exists>logs. fst (getBlockTemplate D acc ex_nonce)
     = Rpc_getblocktemplate \<lparr>miner_spend_key = podToHex (spendSecretKey acc),
                             miner_view_key = podToHex (viewSecretKey acc)\<rparr>
       # map Log_INFO logs"
proof -
  let ?req = "\<lparr>miner_spend_key = podToHex (spendSecretKey acc),
               miner_view_key = podToHex (viewSecretKey acc)\<rparr>"
  have t: "fst (getBlockTemplate_try D acc ex_nonce) = [Rpc_getblocktemplate ?req]
           \<or> (\<exists>m. fst (getBlockTemplate_try D acc ex_nonce) = [Rpc_getblocktemplate ?req, Log_INFO m])"
    by (auto simp: getBlockTemplate_try_def Let_def split: sum.splits option.splits)
  have g: "fst (getBlockTemplate D acc ex_nonce) = fst (getBlockTemplate_try D acc ex_nonce)
           \<or> (\<exists>m. fst (getBlockTemplate D acc ex_nonce)
                 = fst (getBlockTemplate_try D acc ex_nonce) @ [Log_INFO m])"
    by (auto simp: getBlockTemplate_def split: prod.splits sum.splits exception.splits)
  from t g consider
      "fst (getBlockTemplate D acc ex_nonce) = Rpc_getblocktemplate ?req # map Log_INFO []"
    | m where "fst (getBlockTemplate D acc ex_nonce) = Rpc_getblocktemplate ?req # map Log_INFO [m]"
    | m m' where "fst (getBlockTemplate D acc ex_nonce) = Rpc_getblocktemplate ?req # map Log_INFO [m, m']"
    by auto
  then show ?thesis by cases blast+
qed

text \<open>
  C3, as the code has it. For every daemon, account and extra nonce, \<open>getBlockTemplate\<close>
  sends exactly one RPC request, and its \<open>miner_spend_key\<close> and \<open>miner_view_key\<close> are
  the hex encodings of the account's spend and view secret keys; everything else it
  does is logging. The public keys of the account's address have no influence on the
  call.
\<close>

theorem getBlockTemplate_request_keys:
  "(\<exists>logs. fst (getBlockTemplate D acc ex_nonce)
       = Rpc_getblocktemplate \<lparr>miner_spend_key = podToHex (spendSecretKey acc),
                               miner_view_key = podToHex (viewSecretKey acc)\<rparr>
         # map Log_INFO logs)
   \<and> getBlockTemplate D (acc\<lparr>address := a\<rparr>) ex_nonce = getBlockTemplate D acc ex_nonce"
  using getBlockTemplate_effects [of D acc ex_nonce]
  by (simp add: getBlockTemplate_def getBlockTemplate_try_def)

theorem getBlockTemplate_request_keys_witness:
  "fst (getBlockTemplate unreachable_daemon
          \<lparr>address = \<lparr>spendPublicKey = replicate 32 1, viewPublicKey = replicate 32 2\<rparr>,
           spendSecretKey = replicate 32 3, viewSecretKey = replicate 32 4\<rparr> [])
   = [Rpc_getblocktemplate \<lparr>miner_spend_key = podToHex (replicate 32 3),
                            miner_view_key = podToHex (replicate 32 4)\<rparr>,
      Log_INFO ''Wallet failed to connect to daemon.'']"
  using getBlockTemplate_request_keys [of unreachable_daemon
          "\<lparr>address = \<lparr>spendPublicKey = replicate 32 1, viewPublicKey = replicate 32 2\<rparr>,
           spendSecretKey = replicate 32 3, viewSecretKey = replicate 32 4\<rparr>" "[]"]
  by (simp add: getBlockTemplate_def getBlockTemplate_try_def unreachable_daemon_def)

text \<open>
  C3 as the claim words it fails: for an account whose public keys differ from its secret
  keys, the request sent does not carry the hex encoding of the public keys.
\<close>

theorem getBlockTemplate_public_keys_counterexample:
  "hd (fst (getBlockTemplate unreachable_daemon
          \<lparr>address = \<lparr>spendPublicKey = replicate 32 1, viewPublicKey = replicate 32 2\<rparr>,
           spendSecretKey = replicate 32 3, viewSecretKey = replicate 32 4\<rparr> []))
   \<noteq> Rpc_getblocktemplate \<lparr>miner_spend_key = podToHex (replicate 32 1),
                            miner_view_key = podToHex (replicate 32 2)\<rparr>"
  by (simp add: getBlockTemplate_def getBlockTemplate_try_def unreachable_daemon_def podToHex_inj)

subsection \<open>Failures of \<open>getBlockTemplate\<close> and \<open>handleBlockFound\<close>\<close>

text \<open>Both calls return: each exception of the \<open>try\<close> block meets a handler.\<close>

lemma getBlockTemplate_returns:
  "\<exists>r. snd (getBlockTemplate D acc ex_nonce) = Inr r"
  by (auto simp: getBlockTemplate_def split: prod.splits sum.splits exception.splits)

lemma handleBlockFound_returns:
  "\<exists>r. snd (handleBlockFound D b) = Inr r"
  by (auto simp: handleBlockFound_def split: prod.splits sum.splits exception.splits)

text \<open>A \<open>false\<close> result comes with a logged line, and writes no output.\<close>

lemma handleBlockFound_false_logged:
  "snd (handleBlockFound D b) = Inr False \<Longrightarrow> \<exists>m. last (fst (handleBlockFound D b)) = Log_INFO m"
  by (auto simp: handleBlockFound_def handleBlockFound_try_def Let_def
      split: prod.splits sum.splits exception.splits if_splits)

lemma getBlockTemplate_false_logged:
  "snd (getBlockTemplate D acc ex_nonce) = Inr (False, out)
   \<Longrightarrow> out = None \<and> (\<exists>m. last (fst (getBlockTemplate D acc ex_nonce)) = Log_INFO m)"
  by (auto simp: getBlockTemplate_def getBlockTemplate_try_def Let_def
      split: prod.splits sum.splits exception.splits if_splits option.splits)

text \<open>\<open>handleBlockFound\<close> returns \<open>true\<close> exactly when the block was serialised, the RPC
  call returned, and the status text is the OK sentinel or empty.\<close>

lemma handleBlockFound_true_iff:
  "snd (handleBlockFound D b) = Inr True \<longleftrightarrow>
     (\<exists>blob res. toBinaryArray D b = Inr blob \<and> invoke_submitblock D [toHex blob] = Inr res
        \<and> (status res = CORE_RPC_STATUS_OK \<or> status res = []))"
  by (auto simp: handleBlockFound_def handleBlockFound_try_def Let_def interpret_rpc_response_def
      CORE_RPC_STATUS_OK_def CORE_RPC_STATUS_BUSY_def
      split: prod.splits sum.splits exception.splits if_splits)

text \<open>\<open>getBlockTemplate\<close> returns \<open>true\<close> exactly when the RPC call returned, the status
  text is the OK sentinel or empty, and the blob is hex text that parses as a block; the
  outputs are then the block and the difficulty and height of the answer.\<close>

lemma getBlockTemplate_true_iff:
  "snd (getBlockTemplate D acc ex_nonce) = Inr (True, out) \<longleftrightarrow>
     (\<exists>rsp blob b.
        invoke_getblocktemplate D \<lparr>miner_spend_key = podToHex (spendSecretKey acc),
                                   miner_view_key = podToHex (viewSecretKey acc)\<rparr> = Inr rsp
        \<and> (status rsp = CORE_RPC_STATUS_OK \<or> status rsp = [])
        \<and> Common_fromHex (blocktemplate_blob rsp) = Inr blob
        \<and> fromBinaryArray D blob = Some b
        \<and> out = Some (b, difficulty rsp, height rsp))"
  by (auto simp: getBlockTemplate_def getBlockTemplate_try_def Let_def interpret_rpc_response_def
      CORE_RPC_STATUS_OK_def CORE_RPC_STATUS_BUSY_def
      split: prod.splits sum.splits exception.splits if_splits option.splits)

text \<open>
  C6, at a daemon that answers with an empty status text. The empty text is not the OK
  sentinel, yet \<open>handleBlockFound\<close> returns \<open>true\<close> and logs nothing, and
  \<open>getBlockTemplate\<close> returns \<open>true\<close> with the difficulty and height of the answer:
  \<open>interpret_rpc_response\<close> hands the status text back as the error text, and the
  callers take an empty error text for success.
\<close>

theorem empty_status_reported_as_success:
  "[] \<noteq> CORE_RPC_STATUS_OK
   \<and> handleBlockFound empty_status_daemon [] = ([Rpc_submitblock [[]]], Inr True)
   \<and> snd (getBlockTemplate empty_status_daemon
            \<lparr>address = \<lparr>spendPublicKey = replicate 32 1, viewPublicKey = replicate 32 2\<rparr>,
             spendSecretKey = replicate 32 3, viewSecretKey = replicate 32 4\<rparr> [])
       = Inr (True, Some ([], 0, 0))"
  by (simp add: handleBlockFound_def handleBlockFound_try_def getBlockTemplate_def
      getBlockTemplate_try_def empty_status_daemon_def interpret_rpc_response_def
      CORE_RPC_STATUS_OK_def CORE_RPC_STATUS_BUSY_def Common_fromHex_def)

section \<open>Properties of the embedded node\<close>

subsection \<open>Transaction count\<close>

lemma getTxCount_unat:
  assumes "unat (getCurrentBlockchainHeight (m_core n)) \<le> unat (getBlockchainTransactionsCount (m_core n))"
  shows "unat (getTxCount n)
         = unat (getBlockchainTransactionsCount (m_core n)) - unat (getCurrentBlockchainHeight (m_core n))"
proof -
  have u: "unat (ucast (getCurrentBlockchainHeight (m_core n)) :: 64 word)
           = unat (getCurrentBlockchainHeight (m_core n))"
    by (simp add: unsigned_ucast_eq take_bit_nat_eq_self
        order_less_trans [OF unsigned_less])
  then have "(ucast (getCurrentBlockchainHeight (m_core n)) :: 64 word)
             \<le> getBlockchainTransactionsCount (m_core n)"
    using assms by (simp add: word_le_nat_alt)
  then show ?thesis
    by (simp add: getTxCount_def unat_sub u)
qed

text \<open>
  C7. In every state of the embedded node, and so in every state whose chain has at
  least one block, \<open>getTxCount\<close> is the core's transaction count minus the chain height
  in unsigned 64-bit arithmetic; where the height does not exceed the transaction count
  (each block counted with its coinbase transaction) it is their difference as numbers.
\<close>

theorem getTxCount_difference:
  "getTxCount n
     = getBlockchainTransactionsCount (m_core n) - ucast (getCurrentBlockchainHeight (m_core n))
   \<and> (unat (getCurrentBlockchainHeight (m_core n)) \<le> unat (getBlockchainTransactionsCount (m_core n))
        \<longrightarrow> unat (getTxCount n)
              = unat (getBlockchainTransactionsCount (m_core n))
                - unat (getCurrentBlockchainHeight (m_core n)))"
  using getTxCount_unat [of n] by (simp add: getTxCount_def)

theorem getTxCount_difference_witness:
  "getTxCount \<lparr>m_core = \<lparr>getBlockchainTransactionsCount = 12, getCurrentBlockchainHeight = 5\<rparr>\<rparr> = 7
   \<and> unat (getTxCount
        \<lparr>m_core = \<lparr>getBlockchainTransactionsCount = 12, getCurrentBlockchainHeight = 5\<rparr>\<rparr>) = 7"
  using getTxCount_difference
    [of "\<lparr>m_core = \<lparr>getBlockchainTransactionsCount = 12, getCurrentBlockchainHeight = 5\<rparr>\<rparr>"]
  by simp

subsection \<open>Shutdown order\<close>

text \<open>
  C9. Whenever the rewind (if one is configured) and \<open>m_nodeServer.init\<close> succeed and
  the run loop of the P2P server returns, \<open>init\<close> returns, and the calls it makes from
  the run loop on are exactly, in this order: the run loop, the server's \<open>deinit\<close>, the
  core's \<open>save\<close>, the database's \<open>shutdown\<close>, the facade's \<open>shutdown\<close>. So the core
  is saved after the run loop, the database is shut down after the save, and the facade
  is shut down after the database. While the run loop does not return, \<open>init\<close> stays in
  it and none of the teardown calls is made. In every run of \<open>init\<close>, the database is
  not shut down before the core is saved, the facade is not shut down before the
  database or before the save, and the core is saved only after the run loop.
\<close>

theorem init_teardown_order:
  "((getRollBack env = 0xFFFFFFFF \<or> rewind_outcome env = Returns ())
      \<and> nodeServer_init_outcome env = Returns True \<and> nodeServer_run_returns env \<longrightarrow>
      init env
        = (m_logger_INFO ''Initializing InprocessNode...''
           # (if getRollBack env \<noteq> 0xFFFFFFFF then [m_core_rewind (getRollBack env)] else [])
           @ [m_nodeServer_init, m_node_init, m_nodeServer_run, m_nodeServer_deinit,
              m_core_save, m_database_shutdown, m_node_shutdown],
           Returned)
      \<and> occurs_before m_nodeServer_run m_core_save (fst (init env))
      \<and> occurs_before m_core_save m_database_shutdown (fst (init env))
      \<and> occurs_before m_database_shutdown m_node_shutdown (fst (init env)))
   \<and> ((getRollBack env = 0xFFFFFFFF \<or> rewind_outcome env = Returns ())
      \<and> nodeServer_init_outcome env = Returns True \<and> \<not> nodeServer_run_returns env \<longrightarrow>
      init env
        = (m_logger_INFO ''Initializing InprocessNode...''
           # (if getRollBack env \<noteq> 0xFFFFFFFF then [m_core_rewind (getRollBack env)] else [])
           @ [m_nodeServer_init, m_node_init, m_nodeServer_run],
           Blocked))
   \<and> (snd (init env) = Returned \<and> m_nodeServer_run \<in> set (fst (init env)) \<longrightarrow>
      dropWhile (\<lambda>step. step \<noteq> m_nodeServer_run) (fst (init env))
        = [m_nodeServer_run, m_nodeServer_deinit, m_core_save, m_database_shutdown,
           m_node_shutdown])
   \<and> \<not> occurs_before m_database_shutdown m_core_save (fst (init env))
   \<and> \<not> occurs_before m_node_shutdown m_database_shutdown (fst (init env))
   \<and> \<not> occurs_before m_node_shutdown m_core_save (fst (init env))
   \<and> (m_core_save \<in> set (fst (init env)) \<longrightarrow>
        occurs_before m_nodeServer_run m_core_save (fst (init env)))"
  by (auto simp: init_def init_try_def Let_def split: outcome.splits bool.splits if_splits)

theorem init_teardown_order_witness:
  "init \<lparr>getRollBack = 0xFFFFFFFF, rewind_outcome = Returns (),
          nodeServer_init_outcome = Returns True, nodeServer_run_returns = True\<rparr>
     = ([m_logger_INFO ''Initializing InprocessNode...'', m_nodeServer_init, m_node_init,
         m_nodeServer_run, m_nodeServer_deinit, m_core_save, m_database_shutdown,
         m_node_shutdown], Returned)
   \<and> init \<lparr>getRollBack = 100, rewind_outcome = Returns (),
          nodeServer_init_outcome = Returns True, nodeServer_run_returns = True\<rparr>
     = ([m_logger_INFO ''Initializing InprocessNode...'', m_core_rewind 100, m_nodeServer_init,
         m_node_init, m_nodeServer_run, m_nodeServer_deinit, m_core_save, m_database_shutdown,
         m_node_shutdown], Returned)
   \<and> init \<lparr>getRollBack = 0xFFFFFFFF, rewind_outcome = Returns (),
          nodeServer_init_outcome = Returns True, nodeServer_run_returns = False\<rparr>
     = ([m_logger_INFO ''Initializing InprocessNode...'', m_nodeServer_init, m_node_init,
         m_nodeServer_run], Blocked)
   \<and> occurs_before m_core_save m_database_shutdown
        (fst (init \<lparr>getRollBack = 0xFFFFFFFF, rewind_outcome = Returns (),
          nodeServer_init_outcome = Returns True, nodeServer_run_returns = True\<rparr>))
   \<and> occurs_before m_database_shutdown m_node_shutdown
        (fst (init \<lparr>getRollBack = 0xFFFFFFFF, rewind_outcome = Returns (),
          nodeServer_init_outcome = Returns True, nodeServer_run_returns = True\<rparr>))"
  using init_teardown_order [of "\<lparr>getRollBack = 0xFFFFFFFF, rewind_outcome = Returns (),
          nodeServer_init_outcome = Returns True, nodeServer_run_returns = True\<rparr>"]
    init_teardown_order [of "\<lparr>getRollBack = 100, rewind_outcome = Returns (),
          nodeServer_init_outcome = Returns True, nodeServer_run_returns = True\<rparr>"]
    init_teardown_order [of "\<lparr>getRollBack = 0xFFFFFFFF, rewind_outcome = Returns (),
          nodeServer_init_outcome = Returns True, nodeServer_run_returns = False\<rparr>"]
  by simp

section \<open>Properties of the checkpoint bootstrap\<close>

lemma fold_recording_addCheckpoint:
  "fold (\<lambda>checkpoint. addCheckpoint recording_Checkpoints (index checkpoint) (blockId checkpoint))
     cps (r, calls)
   = (r, calls @ map (\<lambda>checkpoint. Call_addCheckpoint (index checkpoint) (blockId checkpoint)) cps)"
  by (induction cps arbitrary: calls) (simp_all add: recording_Checkpoints_def)

lemma recording_bootstrap_calls:
  "snd (loadCheckpointsFromDns recording_Checkpoints
     (fold (\<lambda>checkpoint. addCheckpoint recording_Checkpoints (index checkpoint) (blockId checkpoint))
        cps (Checkpoints_new recording_Checkpoints r)))
   = map (\<lambda>checkpoint. Call_addCheckpoint (index checkpoint) (blockId checkpoint)) cps
     @ [Call_loadCheckpointsFromDns]"
  using fold_recording_addCheckpoint [of cps r "[]"]
  by (simp add: recording_Checkpoints_def)

text \<open>
  C8. The bootstrap takes one of three branches. With checkpoints disabled, whatever
  the test-network flag says, the \<open>Checkpoints\<close> object is the freshly constructed one
  and the line \<open>Loading without checkpoints\<close> is logged. Otherwise, in test-network
  mode, the object is the freshly constructed one and the line \<open>Running in Testnet
  mode\<close> is logged. Otherwise every built-in pair is added, in the order of the table,
  and then \<open>loadCheckpointsFromDns\<close> is called. On an object that records its method
  calls, the first two branches record none and the third records one \<open>addCheckpoint\<close>
  per built-in pair followed by the DNS lookup.
\<close>

theorem checkpoint_bootstrap_cases:
  "(withoutCheckpoints settings \<longrightarrow>
      createInprocessNode_checkpoints K settings CHECKPOINTS
        = (Checkpoints_new K (alowReorg settings),
           (if alowReorg settings then [''Deep reorganization is allowed!''] else [])
           @ [''Loading without checkpoints'']))
   \<and> (\<not> withoutCheckpoints settings \<and> isTestnet settings \<longrightarrow>
      createInprocessNode_checkpoints K settings CHECKPOINTS
        = (Checkpoints_new K (alowReorg settings),
           (if alowReorg settings then [''Deep reorganization is allowed!''] else [])
           @ [''Running in Testnet mode'']))
   \<and> (\<not> withoutCheckpoints settings \<and> \<not> isTestnet settings \<longrightarrow>
      createInprocessNode_checkpoints K settings CHECKPOINTS
        = (loadCheckpointsFromDns K
             (fold (\<lambda>checkpoint. addCheckpoint K (index checkpoint) (blockId checkpoint))
                CHECKPOINTS (Checkpoints_new K (alowReorg settings))),
           (if alowReorg settings then [''Deep reorganization is allowed!''] else [])))
   \<and> snd (fst (createInprocessNode_checkpoints recording_Checkpoints settings CHECKPOINTS))
       = (if withoutCheckpoints settings \<or> isTestnet settings then []
          else map (\<lambda>checkpoint. Call_addCheckpoint (index checkpoint) (blockId checkpoint))
                 CHECKPOINTS
               @ [Call_loadCheckpointsFromDns])"
proof -
  have "snd (Checkpoints_new recording_Checkpoints r) = []" for r
    by (simp add: recording_Checkpoints_def)
  then show ?thesis
    using recording_bootstrap_calls [of CHECKPOINTS]
    by (simp add: createInprocessNode_checkpoints_def Let_def)
qed

theorem checkpoint_bootstrap_cases_witness:
  "createInprocessNode_checkpoints recording_Checkpoints
      \<lparr>alowReorg = False, withoutCheckpoints = True, isTestnet = True\<rparr>
      [\<lparr>index = 1, blockId = ''ab''\<rparr>, \<lparr>index = 2, blockId = ''cd''\<rparr>]
     = ((False, []), [''Loading without checkpoints''])
   \<and> createInprocessNode_checkpoints recording_Checkpoints
      \<lparr>alowReorg = True, withoutCheckpoints = False, isTestnet = True\<rparr>
      [\<lparr>index = 1, blockId = ''ab''\<rparr>, \<lparr>index = 2, blockId = ''cd''\<rparr>]
     = ((True, []), [''Deep reorganization is allowed!'', ''Running in Testnet mode''])
   \<and> createInprocessNode_checkpoints recording_Checkpoints
      \<lparr>alowReorg = False, withoutCheckpoints = False, isTestnet = False\<rparr>
      [\<lparr>index = 1, blockId = ''ab''\<rparr>, \<lparr>index = 2, blockId = ''cd''\<rparr>]
     = ((False, [Call_addCheckpoint 1 ''ab'', Call_addCheckpoint 2 ''cd'',
                 Call_loadCheckpointsFromDns]), [])"
  using checkpoint_bootstrap_cases [of "\<lparr>alowReorg = False, withoutCheckpoints = True, isTestnet = True\<rparr>"
      recording_Checkpoints "[\<lparr>index = 1, blockId = ''ab''\<rparr>, \<lparr>index = 2, blockId = ''cd''\<rparr>]"]
    checkpoint_bootstrap_cases [of "\<lparr>alowReorg = True, withoutCheckpoints = False, isTestnet = True\<rparr>"
      recording_Checkpoints "[\<lparr>index = 1, blockId = ''ab''\<rparr>, \<lparr>index = 2, blockId = ''cd''\<rparr>]"]
    checkpoint_bootstrap_cases [of "\<lparr>alowReorg = False, withoutCheckpoints = False, isTestnet = False\<rparr>"
      recording_Checkpoints "[\<lparr>index = 1, blockId = ''ab''\<rparr>, \<lparr>index = 2, blockId = ''cd''\<rparr>]"]
  by (simp add: recording_Checkpoints_def)

end
